theory Spec2Isabelle
  imports Main "HOL-Library.Sublist"
begin

section \<open>The Authenticator of cognito-at-edge (dist/index.js)\<close>

text \<open>
  The embedding follows \<^verbatim>\<open>class Authenticator\<close> method by method. A rejected promise or a
  thrown exception is the \<open>Inl\<close> of a sum; the calls made through axios are appended to a
  log that every asynchronous method threads. The modules \<^verbatim>\<open>./util/cookie\<close> and
  \<^verbatim>\<open>./util/csrf\<close>, the JWT verifier, axios, \<^verbatim>\<open>querystring\<close>, \<^verbatim>\<open>Buffer\<close>, \<^verbatim>\<open>JSON\<close> and the clock are
  not part of the file; what the class calls of them is a field of the record \<open>deps\<close>.
\<close>

subsection \<open>Data\<close>

type_synonym time = int

datatype same_site = Strict | Lax | NoneSite

text \<open>One constructor for each \<^verbatim>\<open>throw new Error(...)\<close> of the class, and \<open>External\<close> for an
  error raised by a collaborator (the verifier, axios, \<^verbatim>\<open>JSON.parse\<close>), carrying its rendering
  as a string.\<close>

datatype error =
    CsrfProtectionDisabled
  | CookiesNotPresent
  | TokensNotPresent
  | MissingNonceCookie
  | NonceMismatch
  | MissingPkceCookie
  | SignatureMismatch string "string option"
  | ParseAuthPathNotSet
  | CodeNotFound
  | External string

record cookie_attributes =
  domain :: "string option"
  expires :: time
  secure :: bool
  httpOnly :: bool
  sameSite :: "same_site option"
  path :: "string option"

text \<open>One entry of \<^verbatim>\<open>cookieSettingsOverrides\<close>; an absent property is \<open>None\<close>.\<close>

record cookie_settings =
  o_expirationDays :: "int option"
  o_path :: "string option"
  o_httpOnly :: "bool option"
  o_sameSite :: "same_site option"

record logout_configuration =
  logoutUri :: string
  logoutRedirectUri :: "string option"

text \<open>The fields of an Authenticator after its constructor has run. \<open>csrfProtection\<close> holds the
  \<^verbatim>\<open>nonceSigningSecret\<close>; \<open>parseAuthPath\<close> is the empty string when the option was not given.\<close>

record config =
  userPoolAppId :: string
  userPoolAppSecret :: "string option"
  userPoolDomain :: string
  cookieExpirationDays :: int
  disableCookieDomain :: bool
  cookieDomain :: "string option"
  httpOnly_cfg :: bool
  sameSite_cfg :: "same_site option"
  cookiePath :: "string option"
  cookieSettingsOverrides :: "string \<Rightarrow> cookie_settings option"
  csrfProtection :: "string option"
  logoutConfiguration :: "logout_configuration option"
  parseAuthPath :: string

record tokens =
  idToken :: "string option"
  accessToken :: "string option"
  refreshToken :: "string option"

text \<open>The JSON body of a token endpoint response (\<^verbatim>\<open>resp.data\<close>).\<close>

record token_data =
  id_token :: "string option"
  access_token :: "string option"
  refresh_token :: "string option"

text \<open>An axios request: always a POST with content type
  \<^verbatim>\<open>application/x-www-form-urlencoded\<close>; \<open>form\<close> is the object handed to \<^verbatim>\<open>stringify\<close>.\<close>

record axios_request =
  url :: string
  authorization :: "string option"
  form :: "(string \<times> string option) list"

text \<open>The object decoded from the \<^verbatim>\<open>state\<close> query parameter.\<close>

record parsed_state =
  state_nonce :: "string option"
  state_redirect_uri :: "string option"

text \<open>What \<^verbatim>\<open>_getCSRFTokensFromCookie\<close> finds in the request.\<close>

record csrf_cookies =
  nonce_cookie :: "string option"
  nonceHmac_cookie :: "string option"
  pkce_cookie :: "string option"

text \<open>What \<^verbatim>\<open>generateCSRFTokens\<close> returns.\<close>

record csrf_tokens =
  nonce :: string
  nonceHmac :: string
  pkce :: string
  state :: string

text \<open>The CloudFront request of the event (\<^verbatim>\<open>event.Records[0].cf.request\<close>). \<open>cookie\<close> lists
  the values of the Cookie headers, \<open>None\<close> when \<^verbatim>\<open>request.headers.cookie\<close> is undefined;
  \<open>host\<close> is \<^verbatim>\<open>request.headers.host[0].value\<close>, which CloudFront always supplies.\<close>

record request =
  uri :: string
  querystring :: string
  cookie :: "string list option"
  host :: string

text \<open>A Set-Cookie header is \<^verbatim>\<open>Cookies.serialize(name, value, attributes)\<close>; the three
  arguments are kept.\<close>

record set_cookie =
  cookie_name :: string
  cookie_value :: "string option"
  cookie_attrs :: cookie_attributes

text \<open>A response. Each header field lists the values of that header (\<open>location\<close> may hold
  an undefined value); \<open>set_cookies\<close> is \<open>None\<close> when the response has no such property.\<close>

record response =
  status :: string
  location :: "string option list"
  cache_control :: "string list"
  pragma :: "string list"
  set_cookies :: "set_cookie list option"
  body :: "string option"

datatype result = Forward request | Respond response

record claims =
  cognito_username :: string

text \<open>The collaborators of the class.
  \<^item> \<open>verify\<close> is \<^verbatim>\<open>this._jwtVerifier.verify\<close>, applied to a token that may be undefined.
  \<^item> \<open>axios\<close> is \<^verbatim>\<open>axios.request\<close>: the body of the response, or the error it rejects with.
  \<^item> \<open>parseQuery q k\<close> is the property \<open>k\<close> of \<^verbatim>\<open>parse(q)\<close>.
  \<^item> \<open>parseCookies\<close> is \<^verbatim>\<open>Cookies.parse\<close>: the name and value pairs of one Cookie header
    (it does not throw).
  \<^item> \<open>getCookieDomain\<close> is the function of that name of \<^verbatim>\<open>./util/cookie\<close>.
  \<^item> \<open>decodeState s\<close> is \<^verbatim>\<open>JSON.parse(Buffer.from(urlSafe.parse(s), 'base64').toString())\<close>:
    the error it throws, \<open>None\<close> for the value \<^verbatim>\<open>null\<close>, and otherwise the properties
    \<open>nonce\<close> and \<open>redirect_uri\<close> of the value, each present when it is a string.
  \<^item> \<open>encodeState\<close>, \<open>randomNonce\<close> and \<open>randomPkce\<close> are the encoding of the state and the
    two random draws inside \<^verbatim>\<open>generateCSRFTokens\<close>; \<open>signNonce\<close> is the function of that
    name of \<^verbatim>\<open>./util/csrf\<close>.
  \<^item> \<open>encodeURIComponent\<close> is the built-in; \<open>base64 s\<close> is
    \<^verbatim>\<open>Buffer.from(s).toString('base64')\<close>.\<close>

record deps =
  verify :: "string option \<Rightarrow> error + claims"
  axios :: "axios_request \<Rightarrow> error + token_data"
  parseQuery :: "string \<Rightarrow> string \<Rightarrow> string option"
  parseCookies :: "string \<Rightarrow> (string \<times> string) list"
  getCookieDomain :: "string \<Rightarrow> bool \<Rightarrow> string option \<Rightarrow> string option"
  decodeState :: "string option \<Rightarrow> error + parsed_state option"
  encodeState :: "parsed_state \<Rightarrow> string"
  signNonce :: "string \<Rightarrow> string \<Rightarrow> string"
  randomNonce :: string
  randomPkce :: string
  encodeURIComponent :: "string \<Rightarrow> string"
  base64 :: "string \<Rightarrow> string"

subsection \<open>JavaScript values\<close>

text \<open>A string or \<^verbatim>\<open>undefined\<close> is truthy when it is a non-empty string.\<close>

definition truthy :: "string option \<Rightarrow> bool" where
  "truthy v = (case v of None \<Rightarrow> False | Some s \<Rightarrow> s \<noteq> [])"

text \<open>\<^verbatim>\<open>v || d\<close> for a string \<open>d\<close>.\<close>

definition or_else :: "string option \<Rightarrow> string \<Rightarrow> string" where
  "or_else v d = (case v of None \<Rightarrow> d | Some s \<Rightarrow> if s = [] then d else s)"

text \<open>A value inside a template literal.\<close>

definition show_js :: "string option \<Rightarrow> string" where
  "show_js v = (case v of None \<Rightarrow> ''undefined'' | Some s \<Rightarrow> s)"

fun message :: "error \<Rightarrow> string" where
  "message CsrfProtectionDisabled =
     ''_validateCSRFCookies should not be called if CSRF protection is disabled.''"
| "message CookiesNotPresent = ''Cookies weren't present in the request''"
| "message TokensNotPresent =
     ''Neither idToken, nor refreshToken was present in request cookies''"
| "message MissingNonceCookie =
     ''Your browser didn't send the nonce cookie along, but it is required for security (prevent CSRF).''"
| "message NonceMismatch =
     ''Nonce mismatch. This can happen if you start multiple authentication attempts in parallel (e.g. in separate tabs)''"
| "message MissingPkceCookie =
     ''Your browser didn't send the pkce cookie along, but it is required for security (prevent CSRF).''"
| "message (SignatureMismatch calculatedHmac got) =
     ''Nonce signature mismatch! Expected '' @ calculatedHmac @ '' but got '' @ show_js got"
| "message ParseAuthPathNotSet = ''parseAuthPath is not set''"
| "message CodeNotFound = ''OAuth code parameter not found''"
| "message (External s) = s"

text \<open>\<^verbatim>\<open>`${err}`\<close>: an \<^verbatim>\<open>Error\<close> renders as its name and message, a collaborator's
  error as the string it carries.\<close>

fun render :: "error \<Rightarrow> string" where
  "render (External s) = s"
| "render e = ''Error: '' @ message e"

text \<open>The \<^verbatim>\<open>TypeError\<close> of reading a property of \<^verbatim>\<open>null\<close>.\<close>

definition nullProperty :: "string \<Rightarrow> error" where
  "nullProperty p =
     External (''TypeError: Cannot read properties of null (reading '' @ [CHR 0x27] @ p
               @ [CHR 0x27] @ '')'')"

subsection \<open>Asynchronous methods\<close>

text \<open>An action maps the log of axios requests made so far to its outcome and the extended
  log. \<open>Inl\<close> is a rejection.\<close>

type_synonym 'a action = "axios_request list \<Rightarrow> (error + 'a) \<times> axios_request list"

definition return_a :: "'a \<Rightarrow> 'a action" where
  "return_a x = (\<lambda>log. (Inr x, log))"

definition throw_a :: "error \<Rightarrow> 'a action" where
  "throw_a e = (\<lambda>log. (Inl e, log))"

definition lift_a :: "error + 'a \<Rightarrow> 'a action" where
  "lift_a r = (\<lambda>log. (r, log))"

definition bind_a :: "'a action \<Rightarrow> ('a \<Rightarrow> 'b action) \<Rightarrow> 'b action" where
  "bind_a m f = (\<lambda>log. case m log of
       (Inl e, log') \<Rightarrow> (Inl e, log')
     | (Inr x, log') \<Rightarrow> f x log')"

definition catch_a :: "'a action \<Rightarrow> (error \<Rightarrow> 'a action) \<Rightarrow> 'a action" where
  "catch_a m h = (\<lambda>log. case m log of
       (Inl e, log') \<Rightarrow> h e log'
     | (Inr x, log') \<Rightarrow> (Inr x, log'))"

text \<open>\<^verbatim>\<open>axios.request(r)\<close>: the request is logged, the collaborator answers.\<close>

definition axios_call :: "deps \<Rightarrow> axios_request \<Rightarrow> token_data action" where
  "axios_call d r = (\<lambda>log. (axios d r, log @ [r]))"

subsection \<open>Calls to the identity provider\<close>

definition cookieBase :: "config \<Rightarrow> string" where
  "cookieBase cfg = ''CognitoIdentityServiceProvider.'' @ userPoolAppId cfg"

definition getAuthorization :: "config \<Rightarrow> deps \<Rightarrow> string option" where
  "getAuthorization cfg d =
     (case userPoolAppSecret cfg of
        None \<Rightarrow> None
      | Some secret \<Rightarrow>
          if secret = [] then Some []
          else Some (base64 d (userPoolAppId cfg @ '':'' @ secret)))"

text \<open>The \<^verbatim>\<open>Authorization\<close> header of a request: spread in only when the authorization is
  truthy.\<close>

definition authorizationHeader :: "config \<Rightarrow> deps \<Rightarrow> string option" where
  "authorizationHeader cfg d =
     (if truthy (getAuthorization cfg d)
      then Some (''Basic '' @ show_js (getAuthorization cfg d)) else None)"

definition codeRequest :: "config \<Rightarrow> deps \<Rightarrow> string \<Rightarrow> string option \<Rightarrow> axios_request" where
  "codeRequest cfg d redirectURI code =
     \<lparr>url = ''https://'' @ userPoolDomain cfg @ ''/oauth2/token'',
      authorization = authorizationHeader cfg d,
      form = [(''client_id'', Some (userPoolAppId cfg)),
              (''code'', code),
              (''grant_type'', Some ''authorization_code''),
              (''redirect_uri'', Some redirectURI)]\<rparr>"

definition fetchTokensFromCode ::
  "config \<Rightarrow> deps \<Rightarrow> string \<Rightarrow> string option \<Rightarrow> tokens action" where
  "fetchTokensFromCode cfg d redirectURI code =
     bind_a (axios_call d (codeRequest cfg d redirectURI code)) (\<lambda>data.
       return_a \<lparr>idToken = id_token data,
                 accessToken = access_token data,
                 refreshToken = refresh_token data\<rparr>)"

definition refreshRequest :: "config \<Rightarrow> deps \<Rightarrow> string \<Rightarrow> string option \<Rightarrow> axios_request" where
  "refreshRequest cfg d redirectURI refreshToken' =
     \<lparr>url = ''https://'' @ userPoolDomain cfg @ ''/oauth2/token'',
      authorization = authorizationHeader cfg d,
      form = [(''client_id'', Some (userPoolAppId cfg)),
              (''refresh_token'', refreshToken'),
              (''grant_type'', Some ''refresh_token''),
              (''redirect_uri'', Some redirectURI)]\<rparr>"

definition fetchTokensFromRefreshToken ::
  "config \<Rightarrow> deps \<Rightarrow> string \<Rightarrow> string option \<Rightarrow> tokens action" where
  "fetchTokensFromRefreshToken cfg d redirectURI refreshToken' =
     bind_a (axios_call d (refreshRequest cfg d redirectURI refreshToken')) (\<lambda>data.
       return_a \<lparr>idToken = id_token data,
                 accessToken = access_token data,
                 refreshToken = None\<rparr>)"

definition revokeRequest :: "config \<Rightarrow> deps \<Rightarrow> tokens \<Rightarrow> axios_request" where
  "revokeRequest cfg d tokens' =
     \<lparr>url = ''https://'' @ userPoolDomain cfg @ ''/oauth2/revoke'',
      authorization = authorizationHeader cfg d,
      form = [(''client_id'', Some (userPoolAppId cfg)),
              (''token'', refreshToken tokens')]\<rparr>"

definition revokeTokens :: "config \<Rightarrow> deps \<Rightarrow> tokens \<Rightarrow> unit action" where
  "revokeTokens cfg d tokens' =
     bind_a (axios_call d (revokeRequest cfg d tokens')) (\<lambda>_. return_a ())"

subsection \<open>Cookies of the request\<close>

definition requestCookies :: "deps \<Rightarrow> string list \<Rightarrow> (string \<times> string) list" where
  "requestCookies d cookieHeaders = concat (map (parseCookies d) cookieHeaders)"

definition no_tokens :: tokens where
  "no_tokens = \<lparr>idToken = None, accessToken = None, refreshToken = None\<rparr>"

text \<open>The body of the loop of \<^verbatim>\<open>_getTokensFromCookie\<close>.\<close>

definition tokenStep :: "string \<Rightarrow> tokens \<Rightarrow> string \<times> string \<Rightarrow> tokens" where
  "tokenStep tokenCookieNamePrefix tokens' c =
     (let t1 = (if prefix tokenCookieNamePrefix (fst c) \<and> suffix ''.idToken'' (fst c)
                then tokens'\<lparr>idToken := Some (snd c)\<rparr> else tokens')
      in if prefix tokenCookieNamePrefix (fst c) \<and> suffix ''.refreshToken'' (fst c)
         then t1\<lparr>refreshToken := Some (snd c)\<rparr> else t1)"

definition getTokensFromCookie :: "config \<Rightarrow> deps \<Rightarrow> string list option \<Rightarrow> error + tokens" where
  "getTokensFromCookie cfg d cookieHeaders =
     (case cookieHeaders of
        None \<Rightarrow> Inl CookiesNotPresent
      | Some hs \<Rightarrow>
          (let tokens' = foldl (tokenStep (cookieBase cfg @ ''.'')) no_tokens (requestCookies d hs)
           in if \<not> truthy (idToken tokens') \<and> \<not> truthy (refreshToken tokens')
              then Inl TokensNotPresent
              else Inr tokens'))"

text \<open>Modelled from the spec: the cookie name suffixes \<^verbatim>\<open>NONCE_COOKIE_NAME_SUFFIX\<close>,
  \<^verbatim>\<open>NONCE_HMAC_COOKIE_NAME_SUFFIX\<close> and \<^verbatim>\<open>PKCE_COOKIE_NAME_SUFFIX\<close> of \<^verbatim>\<open>./util/csrf\<close>, which
  is not among the sources. The spec names the three CSRF cookies \<open>nonce\<close>, \<open>nonceHmac\<close> and
  \<open>pkce\<close>, and the class reads the extracted object under these three property names.\<close>

definition NONCE_COOKIE_NAME_SUFFIX :: string where
  "NONCE_COOKIE_NAME_SUFFIX = ''nonce''"

definition NONCE_HMAC_COOKIE_NAME_SUFFIX :: string where
  "NONCE_HMAC_COOKIE_NAME_SUFFIX = ''nonceHmac''"

definition PKCE_COOKIE_NAME_SUFFIX :: string where
  "PKCE_COOKIE_NAME_SUFFIX = ''pkce''"

definition no_csrf_cookies :: csrf_cookies where
  "no_csrf_cookies = \<lparr>nonce_cookie = None, nonceHmac_cookie = None, pkce_cookie = None\<rparr>"

text \<open>The reducer of \<^verbatim>\<open>_getCSRFTokensFromCookie\<close>: the three suffixes are tried in the
  order nonce, nonceHmac, pkce.\<close>

definition csrfStep :: "config \<Rightarrow> csrf_cookies \<Rightarrow> string \<times> string \<Rightarrow> csrf_cookies" where
  "csrfStep cfg tokens' c =
     (if prefix (cookieBase cfg) (fst c) then
        (let t1 = (if suffix (''.'' @ NONCE_COOKIE_NAME_SUFFIX) (fst c)
                   then tokens'\<lparr>nonce_cookie := Some (snd c)\<rparr> else tokens');
             t2 = (if suffix (''.'' @ NONCE_HMAC_COOKIE_NAME_SUFFIX) (fst c)
                   then t1\<lparr>nonceHmac_cookie := Some (snd c)\<rparr> else t1)
         in if suffix (''.'' @ PKCE_COOKIE_NAME_SUFFIX) (fst c)
            then t2\<lparr>pkce_cookie := Some (snd c)\<rparr> else t2)
      else tokens')"

definition getCSRFTokensFromCookie ::
  "config \<Rightarrow> deps \<Rightarrow> string list option \<Rightarrow> error + csrf_cookies" where
  "getCSRFTokensFromCookie cfg d cookieHeaders =
     (case cookieHeaders of
        None \<Rightarrow> Inl CookiesNotPresent
      | Some hs \<Rightarrow> Inr (foldl (csrfStep cfg) no_csrf_cookies (requestCookies d hs)))"

subsection \<open>CSRF validation\<close>

text \<open>\<^verbatim>\<open>_validateCSRFCookies\<close>: the state is decoded first, then the cookies are read, then
  the four checks run in the order of the source.\<close>

definition validateCSRFCookies :: "config \<Rightarrow> deps \<Rightarrow> request \<Rightarrow> error + unit" where
  "validateCSRFCookies cfg d req =
     (case csrfProtection cfg of
        None \<Rightarrow> Inl CsrfProtectionDisabled
      | Some nonceSigningSecret \<Rightarrow>
          (case decodeState d (parseQuery d (querystring req) ''state'') of
             Inl e \<Rightarrow> Inl e
           | Inr parsed \<Rightarrow>
               (case getCSRFTokensFromCookie cfg d (cookie req) of
                  Inl e \<Rightarrow> Inl e
                | Inr found \<Rightarrow>
                    (case parsed of
                       None \<Rightarrow> Inl (nullProperty ''nonce'')
                     | Some parsedState \<Rightarrow>
                         if \<not> truthy (state_nonce parsedState)
                            \<or> \<not> truthy (nonce_cookie found)
                            \<or> state_nonce parsedState \<noteq> nonce_cookie found
                         then (if \<not> truthy (nonce_cookie found)
                               then Inl MissingNonceCookie else Inl NonceMismatch)
                         else if \<not> truthy (pkce_cookie found) then Inl MissingPkceCookie
                         else (let calculatedHmac =
                                     signNonce d (show_js (state_nonce parsedState))
                                       nonceSigningSecret
                               in if Some calculatedHmac \<noteq> nonceHmac_cookie found
                                  then Inl (SignatureMismatch calculatedHmac
                                              (nonceHmac_cookie found))
                                  else Inr ())))))"

definition getRedirectUriFromState ::
  "config \<Rightarrow> deps \<Rightarrow> string option \<Rightarrow> error + string option" where
  "getRedirectUriFromState cfg d state' =
     (case csrfProtection cfg of
        None \<Rightarrow> Inr state'
      | Some _ \<Rightarrow>
          (case decodeState d state' of
             Inl e \<Rightarrow> Inl e
           | Inr None \<Rightarrow> Inl (nullProperty ''redirect_uri'')
           | Inr (Some parsedState) \<Rightarrow> Inr (state_redirect_uri parsedState)))"

subsection \<open>Responses\<close>

text \<open>\<^verbatim>\<open>_getOverridenCookieAttributes\<close>. \<open>now\<close> is the reading of the clock
  (\<^verbatim>\<open>Date.now()\<close>, \<^verbatim>\<open>new Date()\<close>) in milliseconds; the readings within one call of a flow
  are taken to be the same instant. A day is \<^verbatim>\<open>864e+5\<close> milliseconds, and
  \<open>expirationDays\<close> is a whole number.\<close>

definition getOverridenCookieAttributes ::
  "config \<Rightarrow> time \<Rightarrow> cookie_attributes \<Rightarrow> string \<Rightarrow> cookie_attributes" where
  "getOverridenCookieAttributes cfg now cookieAttributes cookieType =
     (case cookieSettingsOverrides cfg cookieType of
        None \<Rightarrow> cookieAttributes
      | Some overrides \<Rightarrow>
          (let r1 = (case o_httpOnly overrides of
                       None \<Rightarrow> cookieAttributes
                     | Some v \<Rightarrow> cookieAttributes\<lparr>httpOnly := v\<rparr>);
               r2 = (case o_sameSite overrides of
                       None \<Rightarrow> r1
                     | Some v \<Rightarrow> r1\<lparr>sameSite := Some v\<rparr>);
               r3 = (case o_path overrides of
                       None \<Rightarrow> r2
                     | Some v \<Rightarrow> r2\<lparr>path := Some v\<rparr>)
           in (case o_expirationDays overrides of
                 None \<Rightarrow> r3
               | Some days \<Rightarrow> r3\<lparr>expires := now + days * 86400000\<rparr>)))"

definition CACHE_CONTROL :: string where
  "CACHE_CONTROL = ''no-cache, no-store, max-age=0, must-revalidate''"

definition baseCookieAttributes :: "config \<Rightarrow> deps \<Rightarrow> string \<Rightarrow> time \<Rightarrow> cookie_attributes" where
  "baseCookieAttributes cfg d cfDomain expiry =
     \<lparr>domain = getCookieDomain d cfDomain (disableCookieDomain cfg) (cookieDomain cfg),
      expires = expiry,
      secure = True,
      httpOnly = httpOnly_cfg cfg,
      sameSite = sameSite_cfg cfg,
      path = cookiePath cfg\<rparr>"

text \<open>The cookies that \<^verbatim>\<open>_getRedirectResponse\<close> appends when CSRF protection is on: the three
  CSRF cookies, emptied, without a domain and expiring now.\<close>

definition clearedCsrfCookies :: "config \<Rightarrow> time \<Rightarrow> cookie_attributes \<Rightarrow> set_cookie list" where
  "clearedCsrfCookies cfg now cookieAttributes =
     (case csrfProtection cfg of
        None \<Rightarrow> []
      | Some _ \<Rightarrow>
          (let csrfCookieAttributes = cookieAttributes\<lparr>domain := None, expires := now\<rparr>
           in [\<lparr>cookie_name = cookieBase cfg @ ''.'' @ PKCE_COOKIE_NAME_SUFFIX,
                cookie_value = Some [], cookie_attrs = csrfCookieAttributes\<rparr>,
               \<lparr>cookie_name = cookieBase cfg @ ''.'' @ NONCE_COOKIE_NAME_SUFFIX,
                cookie_value = Some [], cookie_attrs = csrfCookieAttributes\<rparr>,
               \<lparr>cookie_name = cookieBase cfg @ ''.'' @ NONCE_HMAC_COOKIE_NAME_SUFFIX,
                cookie_value = Some [], cookie_attrs = csrfCookieAttributes\<rparr>]))"

text \<open>\<^verbatim>\<open>_getRedirectResponse\<close>: the verification of the ID token comes first and its failure
  rejects the promise.\<close>

definition getRedirectResponse ::
  "config \<Rightarrow> deps \<Rightarrow> time \<Rightarrow> tokens \<Rightarrow> string \<Rightarrow> string option \<Rightarrow> error + response" where
  "getRedirectResponse cfg d now tokens' cfDomain target =
     (case verify d (idToken tokens') of
        Inl e \<Rightarrow> Inl e
      | Inr decoded \<Rightarrow>
          (let username = cognito_username decoded;
               usernameBase = cookieBase cfg @ ''.'' @ username;
               cookieAttributes =
                 baseCookieAttributes cfg d cfDomain (now + cookieExpirationDays cfg * 86400000);
               cookies =
                 [\<lparr>cookie_name = usernameBase @ ''.accessToken'',
                   cookie_value = accessToken tokens',
                   cookie_attrs =
                     getOverridenCookieAttributes cfg now cookieAttributes ''accessToken''\<rparr>,
                  \<lparr>cookie_name = usernameBase @ ''.idToken'',
                   cookie_value = idToken tokens',
                   cookie_attrs =
                     getOverridenCookieAttributes cfg now cookieAttributes ''idToken''\<rparr>]
                 @ (if truthy (refreshToken tokens')
                    then [\<lparr>cookie_name = usernameBase @ ''.refreshToken'',
                           cookie_value = refreshToken tokens',
                           cookie_attrs =
                             getOverridenCookieAttributes cfg now cookieAttributes
                               ''refreshToken''\<rparr>]
                    else [])
                 @ [\<lparr>cookie_name = usernameBase @ ''.tokenScopesString'',
                     cookie_value = Some ''phone email profile openid aws.cognito.signin.user.admin'',
                     cookie_attrs = cookieAttributes\<rparr>,
                    \<lparr>cookie_name = cookieBase cfg @ ''.LastAuthUser'',
                     cookie_value = Some username,
                     cookie_attrs = cookieAttributes\<rparr>]
           in Inr \<lparr>status = ''302'',
                   location = [target],
                   cache_control = [CACHE_CONTROL],
                   pragma = [''no-cache''],
                   set_cookies = Some (cookies @ clearedCsrfCookies cfg now cookieAttributes),
                   body = None\<rparr>))"

text \<open>The cookies of \<^verbatim>\<open>_clearCookies\<close>: those of the user when the ID token verifies, and
  otherwise every cookie of the request whose name starts with the cookie base.\<close>

definition clearedCookies ::
  "config \<Rightarrow> deps \<Rightarrow> request \<Rightarrow> tokens \<Rightarrow> cookie_attributes \<Rightarrow> set_cookie list" where
  "clearedCookies cfg d req tokens' cookieAttributes =
     (case verify d (idToken tokens') of
        Inr decoded \<Rightarrow>
          (let username = cognito_username decoded;
               usernameBase = cookieBase cfg @ ''.'' @ username
           in [\<lparr>cookie_name = usernameBase @ ''.accessToken'',
                cookie_value = Some [], cookie_attrs = cookieAttributes\<rparr>,
               \<lparr>cookie_name = usernameBase @ ''.idToken'',
                cookie_value = Some [], cookie_attrs = cookieAttributes\<rparr>]
              @ (if truthy (refreshToken tokens')
                 then [\<lparr>cookie_name = usernameBase @ ''.refreshToken'',
                        cookie_value = Some [], cookie_attrs = cookieAttributes\<rparr>]
                 else [])
              @ [\<lparr>cookie_name = usernameBase @ ''.tokenScopesString'',
                  cookie_value = Some [], cookie_attrs = cookieAttributes\<rparr>,
                 \<lparr>cookie_name = cookieBase cfg @ ''.LastAuthUser'',
                  cookie_value = Some [], cookie_attrs = cookieAttributes\<rparr>])
      | Inl err \<Rightarrow>
          map (\<lambda>c. \<lparr>cookie_name = fst c, cookie_value = Some [],
                     cookie_attrs = cookieAttributes\<rparr>)
            (filter (\<lambda>c. prefix (cookieBase cfg) (fst c))
               (case cookie req of None \<Rightarrow> [] | Some hs \<Rightarrow> requestCookies d hs)))"

definition logoutRedirectUri_cfg :: "config \<Rightarrow> string option" where
  "logoutRedirectUri_cfg cfg =
     (case logoutConfiguration cfg of None \<Rightarrow> None | Some lc \<Rightarrow> logoutRedirectUri lc)"

definition clearCookies :: "config \<Rightarrow> deps \<Rightarrow> time \<Rightarrow> request \<Rightarrow> tokens \<Rightarrow> response" where
  "clearCookies cfg d now req tokens' =
     (let cfDomain = host req;
          requestParams = parseQuery d (querystring req);
          redirectURI = or_else (logoutRedirectUri_cfg cfg)
                          (or_else (requestParams ''redirect_uri'') (''https://'' @ cfDomain));
          cookieAttributes = baseCookieAttributes cfg d cfDomain now
      in \<lparr>status = ''302'',
          location = [Some redirectURI],
          cache_control = [CACHE_CONTROL],
          pragma = [''no-cache''],
          set_cookies = Some (clearedCookies cfg d req tokens' cookieAttributes),
          body = None\<rparr>)"

text \<open>Modelled from the spec: \<^verbatim>\<open>generateCSRFTokens\<close> of \<^verbatim>\<open>./util/csrf\<close>, which is not among the
  sources. The spec: it produces a random nonce and PKCE verifier, computes the nonce's HMAC
  under the secret, and builds the state as the URL-safe base64 encoding of the nonce and
  the redirect URI. The two random strings are the draws \<open>randomNonce\<close> and \<open>randomPkce\<close>.\<close>

definition generateCSRFTokens :: "deps \<Rightarrow> string \<Rightarrow> string \<Rightarrow> csrf_tokens" where
  "generateCSRFTokens d redirectURI secret =
     \<lparr>nonce = randomNonce d,
      nonceHmac = signNonce d (randomNonce d) secret,
      pkce = randomPkce d,
      state = encodeState d \<lparr>state_nonce = Some (randomNonce d),
                             state_redirect_uri = Some redirectURI\<rparr>\<rparr>"

definition csrfCookies :: "config \<Rightarrow> time \<Rightarrow> csrf_tokens \<Rightarrow> set_cookie list" where
  "csrfCookies cfg now csrfTokens =
     (let cookieAttributes =
            \<lparr>domain = None, expires = now + 10 * 60 * 1000, secure = True,
             httpOnly = httpOnly_cfg cfg, sameSite = sameSite_cfg cfg, path = cookiePath cfg\<rparr>
      in [\<lparr>cookie_name = cookieBase cfg @ ''.'' @ PKCE_COOKIE_NAME_SUFFIX,
           cookie_value = Some (or_else (Some (pkce csrfTokens)) []),
           cookie_attrs = cookieAttributes\<rparr>,
          \<lparr>cookie_name = cookieBase cfg @ ''.'' @ NONCE_COOKIE_NAME_SUFFIX,
           cookie_value = Some (or_else (Some (nonce csrfTokens)) []),
           cookie_attrs = cookieAttributes\<rparr>,
          \<lparr>cookie_name = cookieBase cfg @ ''.'' @ NONCE_HMAC_COOKIE_NAME_SUFFIX,
           cookie_value = Some (or_else (Some (nonceHmac csrfTokens)) []),
           cookie_attrs = cookieAttributes\<rparr>])"

definition getRedirectToCognitoUserPoolResponse ::
  "config \<Rightarrow> deps \<Rightarrow> time \<Rightarrow> request \<Rightarrow> string \<Rightarrow> response" where
  "getRedirectToCognitoUserPoolResponse cfg d now req redirectURI =
     (let cfDomain = host req;
          redirectPath = uri req @ (if querystring req \<noteq> []
                                    then encodeURIComponent d (''?'' @ querystring req)
                                    else []);
          oauthRedirectUri = (if parseAuthPath cfg \<noteq> []
                              then ''https://'' @ cfDomain @ ''/'' @ parseAuthPath cfg
                              else redirectURI);
          csrfTokens = map_option (generateCSRFTokens d redirectURI) (csrfProtection cfg);
          state' = (case csrfTokens of None \<Rightarrow> redirectPath | Some t \<Rightarrow> state t);
          userPoolUrl = ''https://'' @ userPoolDomain cfg @ ''/authorize?redirect_uri='' @
                        oauthRedirectUri @ ''&response_type=code&client_id='' @
                        userPoolAppId cfg @ ''&state='' @ state'
      in \<lparr>status = ''302'',
          location = [Some userPoolUrl],
          cache_control = [CACHE_CONTROL],
          pragma = [''no-cache''],
          set_cookies = map_option (csrfCookies cfg now) csrfTokens,
          body = None\<rparr>)"

subsection \<open>The five flows\<close>

definition logoutRequested :: "config \<Rightarrow> request \<Rightarrow> bool" where
  "logoutRequested cfg req =
     (case logoutConfiguration cfg of
        None \<Rightarrow> False
      | Some lc \<Rightarrow> prefix (logoutUri lc) (uri req))"

text \<open>The catch clause of \<^verbatim>\<open>handle\<close>. The promise of the code exchange is returned without
  a handler: its rejection is the rejection of \<^verbatim>\<open>handle\<close>.\<close>

definition handleUnauthenticated :: "config \<Rightarrow> deps \<Rightarrow> time \<Rightarrow> request \<Rightarrow> result action" where
  "handleUnauthenticated cfg d now req =
     (let requestParams = parseQuery d (querystring req);
          cfDomain = host req;
          redirectURI = ''https://'' @ cfDomain
      in if logoutRequested cfg req
         then return_a (Respond (clearCookies cfg d now req no_tokens))
         else if truthy (requestParams ''code'')
         then bind_a (fetchTokensFromCode cfg d redirectURI (requestParams ''code'')) (\<lambda>tokens'.
              bind_a (lift_a (getRedirectUriFromState cfg d (requestParams ''state''))) (\<lambda>target.
              bind_a (lift_a (getRedirectResponse cfg d now tokens' cfDomain target)) (\<lambda>r.
              return_a (Respond r))))
         else return_a (Respond (getRedirectToCognitoUserPoolResponse cfg d now req redirectURI)))"

definition handle :: "config \<Rightarrow> deps \<Rightarrow> time \<Rightarrow> request \<Rightarrow> result action" where
  "handle cfg d now req =
     (let cfDomain = host req;
          redirectURI = ''https://'' @ cfDomain
      in catch_a
           (bind_a (lift_a (getTokensFromCookie cfg d (cookie req))) (\<lambda>tokens'.
              if logoutRequested cfg req
              then bind_a (revokeTokens cfg d tokens') (\<lambda>_.
                   return_a (Respond (clearCookies cfg d now req tokens')))
              else catch_a
                     (bind_a (lift_a (verify d (idToken tokens'))) (\<lambda>user.
                      return_a (Forward req)))
                     (\<lambda>err.
                        if truthy (refreshToken tokens')
                        then bind_a (fetchTokensFromRefreshToken cfg d redirectURI
                                       (refreshToken tokens')) (\<lambda>fresh.
                             bind_a (lift_a (getRedirectResponse cfg d now fresh cfDomain
                                               (Some (uri req)))) (\<lambda>r.
                             return_a (Respond r)))
                        else throw_a err)))
           (\<lambda>err. handleUnauthenticated cfg d now req))"

definition handleSignIn :: "config \<Rightarrow> deps \<Rightarrow> time \<Rightarrow> request \<Rightarrow> response action" where
  "handleSignIn cfg d now req =
     (let requestParams = parseQuery d (querystring req);
          cfDomain = host req;
          redirectURI = or_else (requestParams ''redirect_uri'') (''https://'' @ cfDomain)
      in catch_a
           (bind_a (lift_a (getTokensFromCookie cfg d (cookie req))) (\<lambda>tokens'.
            bind_a (lift_a (verify d (idToken tokens'))) (\<lambda>user.
            return_a \<lparr>status = ''302'',
                      location = [Some redirectURI],
                      cache_control = [],
                      pragma = [],
                      set_cookies = None,
                      body = None\<rparr>)))
           (\<lambda>err. return_a (getRedirectToCognitoUserPoolResponse cfg d now req redirectURI)))"

text \<open>What a \<^verbatim>\<open>try\<close> statement of \<^verbatim>\<open>handleParseAuth\<close> or \<^verbatim>\<open>handleRefreshToken\<close> returns: the
  response of its catch clause, or the promise \<^verbatim>\<open>this._getRedirectResponse(tokens, cfDomain,
  location)\<close>, which the \<^verbatim>\<open>try\<close> block returns without awaiting it. The async function
  then settles as that promise does, so a rejection of the promise is not seen by the catch
  clause.\<close>

datatype returned = Done response | Pending tokens "string option"

definition settle ::
  "config \<Rightarrow> deps \<Rightarrow> time \<Rightarrow> string \<Rightarrow> returned \<Rightarrow> response action" where
  "settle cfg d now cfDomain r =
     (case r of
        Done resp \<Rightarrow> return_a resp
      | Pending tokens' target \<Rightarrow> lift_a (getRedirectResponse cfg d now tokens' cfDomain target))"

definition errorResponse :: "error \<Rightarrow> response" where
  "errorResponse err =
     \<lparr>status = ''400'', location = [], cache_control = [], pragma = [],
      set_cookies = None, body = Some (render err)\<rparr>"

definition handleParseAuth :: "config \<Rightarrow> deps \<Rightarrow> time \<Rightarrow> request \<Rightarrow> response action" where
  "handleParseAuth cfg d now req =
     (let cfDomain = host req;
          requestParams = parseQuery d (querystring req)
      in bind_a
           (catch_a
              (if parseAuthPath cfg = [] then throw_a ParseAuthPathNotSet
               else (let redirectURI = ''https://'' @ cfDomain @ ''/'' @ parseAuthPath cfg
                     in if truthy (requestParams ''code'')
                        then bind_a (lift_a (if csrfProtection cfg \<noteq> None
                                             then validateCSRFCookies cfg d req
                                             else Inr ())) (\<lambda>_.
                             bind_a (fetchTokensFromCode cfg d redirectURI
                                       (requestParams ''code'')) (\<lambda>tokens'.
                             bind_a (lift_a (getRedirectUriFromState cfg d
                                               (requestParams ''state''))) (\<lambda>target.
                             return_a (Pending tokens' target))))
                        else throw_a CodeNotFound))
              (\<lambda>err. return_a (Done (errorResponse err))))
           (settle cfg d now cfDomain))"



subsection \<open>A sample environment\<close>

text \<open>Concrete collaborators for evaluating the flows: a cookie header is split at
  semicolons and a query string at ampersands, the state is the nonce and the redirect URI
  joined by a tilde, the verifier accepts the two ID tokens \<open>good-id\<close> and \<open>fresh-id\<close> of the
  user alice, and the identity provider accepts the code \<open>abc\<close> and the refresh token
  \<open>good-refresh\<close>.\<close>

fun splitOn :: "char \<Rightarrow> string \<Rightarrow> string list" where
  "splitOn c [] = [[]]"
| "splitOn c (x # xs) =
     (if x = c then [] # splitOn c xs
      else (case splitOn c xs of [] \<Rightarrow> [[x]] | w # ws \<Rightarrow> (x # w) # ws))"

definition keyValue :: "string \<Rightarrow> string \<times> string" where
  "keyValue s =
     (takeWhile (\<lambda>c. c \<noteq> CHR ''='') s, drop 1 (dropWhile (\<lambda>c. c \<noteq> CHR ''='') s))"

definition sample_parseCookies :: "string \<Rightarrow> (string \<times> string) list" where
  "sample_parseCookies h =
     map (\<lambda>p. keyValue (dropWhile (\<lambda>c. c = CHR '' '') p))
       (filter (\<lambda>p. p \<noteq> []) (splitOn CHR '';'' h))"

definition sample_parseQuery :: "string \<Rightarrow> string \<Rightarrow> string option" where
  "sample_parseQuery q k =
     map_of (map keyValue (filter (\<lambda>p. p \<noteq> []) (splitOn CHR ''&'' q))) k"

definition sample_verify :: "string option \<Rightarrow> error + claims" where
  "sample_verify t =
     (if t = Some ''good-id'' \<or> t = Some ''fresh-id''
      then Inr \<lparr>cognito_username = ''alice''\<rparr>
      else Inl (External ''JwtExpiredError: Token expired''))"

definition sample_axios :: "axios_request \<Rightarrow> error + token_data" where
  "sample_axios r =
     (if map_of (form r) ''grant_type'' = Some (Some ''authorization_code'')
         \<and> map_of (form r) ''code'' = Some (Some ''abc'')
      then Inr \<lparr>id_token = Some ''fresh-id'', access_token = Some ''fresh-access'',
                refresh_token = Some ''fresh-refresh''\<rparr>
      else if map_of (form r) ''grant_type'' = Some (Some ''refresh_token'')
         \<and> map_of (form r) ''refresh_token'' = Some (Some ''good-refresh'')
      then Inr \<lparr>id_token = Some ''fresh-id'', access_token = Some ''fresh-access'',
                refresh_token = None\<rparr>
      else if map_of (form r) ''token'' = Some (Some ''good-refresh'')
      then Inr \<lparr>id_token = None, access_token = None, refresh_token = None\<rparr>
      else Inl (External ''AxiosError: Request failed with status code 400''))"

definition sample_decodeState :: "string option \<Rightarrow> error + parsed_state option" where
  "sample_decodeState s =
     (case s of
        None \<Rightarrow> Inl (External ''TypeError: Cannot read properties of undefined'')
      | Some t \<Rightarrow>
          if CHR ''~'' \<in> set t
          then Inr (Some \<lparr>state_nonce = Some (takeWhile (\<lambda>c. c \<noteq> CHR ''~'') t),
                          state_redirect_uri =
                            Some (drop 1 (dropWhile (\<lambda>c. c \<noteq> CHR ''~'') t))\<rparr>)
          else Inl (External ''SyntaxError: Unexpected token in JSON''))"

definition sample_encodeState :: "parsed_state \<Rightarrow> string" where
  "sample_encodeState ps = show_js (state_nonce ps) @ ''~'' @ show_js (state_redirect_uri ps)"

definition sample_deps :: deps where
  "sample_deps =
     \<lparr>verify = sample_verify,
      axios = sample_axios,
      parseQuery = sample_parseQuery,
      parseCookies = sample_parseCookies,
      getCookieDomain = (\<lambda>cfDomain disabled configured.
                           if disabled then None else Some (or_else configured cfDomain)),
      decodeState = sample_decodeState,
      encodeState = sample_encodeState,
      signNonce = (\<lambda>n secret. ''hmac('' @ n @ '','' @ secret @ '')''),
      randomNonce = ''n0nce'',
      randomPkce = ''v3rifier'',
      encodeURIComponent = (\<lambda>s. concat (map (\<lambda>c. if c = CHR 0x3F then [CHR 0x25, CHR 0x33, CHR 0x46] else [c]) s)),
      base64 = (\<lambda>s. ''b64('' @ s @ '')'')\<rparr>"

definition sample_config :: config where
  "sample_config =
     \<lparr>userPoolAppId = ''app'',
      userPoolAppSecret = None,
      userPoolDomain = ''auth.example.com'',
      cookieExpirationDays = 365,
      disableCookieDomain = False,
      cookieDomain = None,
      httpOnly_cfg = False,
      sameSite_cfg = None,
      cookiePath = None,
      cookieSettingsOverrides = (\<lambda>k. None),
      csrfProtection = None,
      logoutConfiguration = None,
      parseAuthPath = []\<rparr>"

subsection \<open>Reading a response\<close>

definition cookiesOf :: "error + response \<Rightarrow> set_cookie list" where
  "cookiesOf r =
     (case r of
        Inl e \<Rightarrow> []
      | Inr resp \<Rightarrow> (case set_cookies resp of None \<Rightarrow> [] | Some cs \<Rightarrow> cs))"



subsection \<open>Sample configurations and tokens\<close>




subsection \<open>Sample requests\<close>

text \<open>A request with the session cookies of alice, the ID token valid.\<close>

definition valid_session_request :: request where
  "valid_session_request =
     \<lparr>uri = ''/index.html'', querystring = [],
      cookie = Some [''CognitoIdentityServiceProvider.app.alice.idToken=good-id; CognitoIdentityServiceProvider.app.alice.refreshToken=good-refresh''],
      host = ''example.com''\<rparr>"



subsection \<open>Names for parts of the flows\<close>

text \<open>The token sets that \<^verbatim>\<open>_fetchTokensFromCode\<close> and \<^verbatim>\<open>_fetchTokensFromRefreshToken\<close>
  build from a response of the token endpoint, the redirect URIs the flows compute, and the
  CSRF step of \<^verbatim>\<open>handleParseAuth\<close>.\<close>

definition exchanged :: "token_data \<Rightarrow> tokens" where
  "exchanged data = \<lparr>idToken = id_token data, accessToken = access_token data,
                     refreshToken = refresh_token data\<rparr>"

definition refreshed :: "token_data \<Rightarrow> tokens" where
  "refreshed data = \<lparr>idToken = id_token data, accessToken = access_token data,
                     refreshToken = None\<rparr>"

definition parseAuthRedirectURI :: "config \<Rightarrow> request \<Rightarrow> string" where
  "parseAuthRedirectURI cfg req = ''https://'' @ host req @ ''/'' @ parseAuthPath cfg"

definition csrfChecked :: "config \<Rightarrow> deps \<Rightarrow> request \<Rightarrow> error + unit" where
  "csrfChecked cfg d req =
     (if csrfProtection cfg \<noteq> None then validateCSRFCookies cfg d req else Inr ())"


definition cookiePairs :: "set_cookie list \<Rightarrow> (string \<times> string option) list" where
  "cookiePairs cs = map (\<lambda>c. (cookie_name c, cookie_value c)) cs"

definition resultCookies :: "error + result \<Rightarrow> set_cookie list" where
  "resultCookies r =
     (case r of
        Inr (Respond resp) \<Rightarrow> cookiesOf (Inr resp)
      | Inr (Forward req) \<Rightarrow> []
      | Inl e \<Rightarrow> [])"

subsection \<open>A sample with CSRF protection\<close>

definition csrf_config :: config where
  "csrf_config = sample_config\<lparr>csrfProtection := Some ''s3cret'', parseAuthPath := ''callback''\<rparr>"

text \<open>A callback whose state carries another nonce than the nonce cookie.\<close>

definition tampered_request :: request where
  "tampered_request =
     \<lparr>uri = ''/callback'', querystring = ''code=abc&state=evil~https://example.com/'',
      cookie = Some [''CognitoIdentityServiceProvider.app.pkce=v3rifier; CognitoIdentityServiceProvider.app.nonce=n0nce; CognitoIdentityServiceProvider.app.nonceHmac=hmac(n0nce,s3cret)''],
      host = ''example.com''\<rparr>"

subsection \<open>Requests that answer the authorize redirect\<close>

text \<open>The request carries the given state parameter and exactly the three CSRF cookies,
  in the order in which the authorize redirect sets them, with the given values.\<close>

definition carries ::
  "config \<Rightarrow> deps \<Rightarrow> request \<Rightarrow> string \<Rightarrow> string \<Rightarrow> string \<Rightarrow> string \<Rightarrow> bool" where
  "carries cfg d req st p n h =
     (parseQuery d (querystring req) ''state'' = Some st
      \<and> (case cookie req of
            None \<Rightarrow> False
          | Some hs \<Rightarrow>
              requestCookies d hs =
                [(cookieBase cfg @ ''.'' @ PKCE_COOKIE_NAME_SUFFIX, p),
                 (cookieBase cfg @ ''.'' @ NONCE_COOKIE_NAME_SUFFIX, n),
                 (cookieBase cfg @ ''.'' @ NONCE_HMAC_COOKIE_NAME_SUFFIX, h)]))"

text \<open>The same without the nonce cookie, and without the PKCE cookie.\<close>

definition carriesWithoutNonce ::
  "config \<Rightarrow> deps \<Rightarrow> request \<Rightarrow> string \<Rightarrow> string \<Rightarrow> string \<Rightarrow> bool" where
  "carriesWithoutNonce cfg d req st p h =
     (parseQuery d (querystring req) ''state'' = Some st
      \<and> (case cookie req of
            None \<Rightarrow> False
          | Some hs \<Rightarrow>
              requestCookies d hs =
                [(cookieBase cfg @ ''.'' @ PKCE_COOKIE_NAME_SUFFIX, p),
                 (cookieBase cfg @ ''.'' @ NONCE_HMAC_COOKIE_NAME_SUFFIX, h)]))"

definition carriesWithoutPkce ::
  "config \<Rightarrow> deps \<Rightarrow> request \<Rightarrow> string \<Rightarrow> string \<Rightarrow> string \<Rightarrow> bool" where
  "carriesWithoutPkce cfg d req st n h =
     (parseQuery d (querystring req) ''state'' = Some st
      \<and> (case cookie req of
            None \<Rightarrow> False
          | Some hs \<Rightarrow>
              requestCookies d hs =
                [(cookieBase cfg @ ''.'' @ NONCE_COOKIE_NAME_SUFFIX, n),
                 (cookieBase cfg @ ''.'' @ NONCE_HMAC_COOKIE_NAME_SUFFIX, h)]))"

text \<open>The values of the Set-Cookie headers, as the browser sends them back.\<close>

definition sentBack :: "set_cookie list \<Rightarrow> (string \<times> string) list" where
  "sentBack cs = map (\<lambda>c. (cookie_name c, or_else (cookie_value c) [])) cs"

definition genuine_request :: request where
  "genuine_request =
     \<lparr>uri = ''/callback'', querystring = ''code=abc&state=n0nce~https://example.com'',
      cookie = Some [''CognitoIdentityServiceProvider.app.pkce=v3rifier; CognitoIdentityServiceProvider.app.nonce=n0nce; CognitoIdentityServiceProvider.app.nonceHmac=hmac(n0nce,s3cret)''],
      host = ''example.com''\<rparr>"

definition nonce_mutated_request :: request where
  "nonce_mutated_request =
     genuine_request\<lparr>cookie := Some [''CognitoIdentityServiceProvider.app.pkce=v3rifier; CognitoIdentityServiceProvider.app.nonce=n1nce; CognitoIdentityServiceProvider.app.nonceHmac=hmac(n0nce,s3cret)'']\<rparr>"

definition hmac_mutated_request :: request where
  "hmac_mutated_request =
     genuine_request\<lparr>cookie := Some [''CognitoIdentityServiceProvider.app.pkce=v3rifier; CognitoIdentityServiceProvider.app.nonce=n0nce; CognitoIdentityServiceProvider.app.nonceHmac=Hmac(n0nce,s3cret)'']\<rparr>"

definition pkce_mutated_request :: request where
  "pkce_mutated_request =
     genuine_request\<lparr>cookie := Some [''CognitoIdentityServiceProvider.app.pkce=v3rifiEr; CognitoIdentityServiceProvider.app.nonce=n0nce; CognitoIdentityServiceProvider.app.nonceHmac=hmac(n0nce,s3cret)'']\<rparr>"

subsection \<open>Requests with a stale session\<close>




subsection \<open>Callbacks without a session\<close>





subsection \<open>ID tokens written to cookies\<close>



section \<open>Properties\<close>

lemmas sample_defs =
  sample_config_def sample_deps_def sample_verify_def sample_axios_def sample_parseQuery_def
  sample_parseCookies_def sample_decodeState_def sample_encodeState_def keyValue_def

lemmas action_defs =
  return_a_def throw_a_def lift_a_def bind_a_def catch_a_def axios_call_def

lemmas flow_eval =
  getTokensFromCookie_def requestCookies_def tokenStep_def cookieBase_def no_tokens_def
  truthy_def or_else_def show_js_def suffix_to_prefix Let_def logoutRequested_def
  logoutRedirectUri_cfg_def clearCookies_def clearedCookies_def baseCookieAttributes_def
  revokeTokens_def revokeRequest_def authorizationHeader_def getAuthorization_def
  CACHE_CONTROL_def

lemmas csrf_eval =
  validateCSRFCookies_def getCSRFTokensFromCookie_def csrfStep_def no_csrf_cookies_def
  NONCE_COOKIE_NAME_SUFFIX_def NONCE_HMAC_COOKIE_NAME_SUFFIX_def PKCE_COOKIE_NAME_SUFFIX_def
  getRedirectUriFromState_def

subsection \<open>The flows, case by case\<close>

text \<open>Each flow as a function of what the collaborators answer: the outcome and the calls
  appended to the log.\<close>

lemma fetchTokensFromCode_run:
  "fetchTokensFromCode cfg d redirectURI code log =
     (case axios d (codeRequest cfg d redirectURI code) of
        Inl e \<Rightarrow> (Inl e, log @ [codeRequest cfg d redirectURI code])
      | Inr data \<Rightarrow>
          (Inr \<lparr>idToken = id_token data, accessToken = access_token data,
                refreshToken = refresh_token data\<rparr>,
           log @ [codeRequest cfg d redirectURI code]))"
  by (simp add: fetchTokensFromCode_def action_defs split: sum.splits)

lemma fetchTokensFromRefreshToken_run:
  "fetchTokensFromRefreshToken cfg d redirectURI rt log =
     (case axios d (refreshRequest cfg d redirectURI rt) of
        Inl e \<Rightarrow> (Inl e, log @ [refreshRequest cfg d redirectURI rt])
      | Inr data \<Rightarrow>
          (Inr \<lparr>idToken = id_token data, accessToken = access_token data,
                refreshToken = None\<rparr>,
           log @ [refreshRequest cfg d redirectURI rt]))"
  by (simp add: fetchTokensFromRefreshToken_def action_defs split: sum.splits)

lemma handleParseAuth_result:
  "handleParseAuth cfg d now req log =
     (if parseAuthPath cfg = [] then (Inr (errorResponse ParseAuthPathNotSet), log)
      else if \<not> truthy (parseQuery d (querystring req) ''code'')
      then (Inr (errorResponse CodeNotFound), log)
      else (case csrfChecked cfg d req of
              Inl e \<Rightarrow> (Inr (errorResponse e), log)
            | Inr u \<Rightarrow>
               (let call = codeRequest cfg d (parseAuthRedirectURI cfg req)
                             (parseQuery d (querystring req) ''code'')
                in case axios d call of
                     Inl e \<Rightarrow> (Inr (errorResponse e), log @ [call])
                   | Inr data \<Rightarrow>
                       (case getRedirectUriFromState cfg d (parseQuery d (querystring req) ''state'') of
                          Inl e \<Rightarrow> (Inr (errorResponse e), log @ [call])
                        | Inr target \<Rightarrow>
                            (getRedirectResponse cfg d now (exchanged data) (host req) target,
                             log @ [call])))))"
  by (simp add: handleParseAuth_def fetchTokensFromCode_run settle_def action_defs Let_def
      csrfChecked_def parseAuthRedirectURI_def exchanged_def split: sum.splits)

lemma handleUnauthenticated_result:
  "handleUnauthenticated cfg d now req log =
     (if logoutRequested cfg req
      then (Inr (Respond (clearCookies cfg d now req no_tokens)), log)
      else if truthy (parseQuery d (querystring req) ''code'')
      then (let call = codeRequest cfg d (''https://'' @ host req)
                         (parseQuery d (querystring req) ''code'')
            in case axios d call of
                 Inl e \<Rightarrow> (Inl e, log @ [call])
               | Inr data \<Rightarrow>
                   (case getRedirectUriFromState cfg d (parseQuery d (querystring req) ''state'') of
                      Inl e \<Rightarrow> (Inl e, log @ [call])
                    | Inr target \<Rightarrow>
                        (map_sum id Respond
                           (getRedirectResponse cfg d now (exchanged data) (host req) target),
                         log @ [call])))
      else (Inr (Respond (getRedirectToCognitoUserPoolResponse cfg d now req
                            (''https://'' @ host req))), log))"
  by (simp add: handleUnauthenticated_def fetchTokensFromCode_run action_defs Let_def
      exchanged_def split: sum.splits)

lemma handle_result:
  "handle cfg d now req log =
     (case getTokensFromCookie cfg d (cookie req) of
        Inl e \<Rightarrow> handleUnauthenticated cfg d now req log
      | Inr toks \<Rightarrow>
          if logoutRequested cfg req
          then (case axios d (revokeRequest cfg d toks) of
                  Inl e \<Rightarrow> handleUnauthenticated cfg d now req (log @ [revokeRequest cfg d toks])
                | Inr x \<Rightarrow> (Inr (Respond (clearCookies cfg d now req toks)),
                            log @ [revokeRequest cfg d toks]))
          else (case verify d (idToken toks) of
                  Inr user \<Rightarrow> (Inr (Forward req), log)
                | Inl e \<Rightarrow>
                    if truthy (refreshToken toks)
                    then (let call = refreshRequest cfg d (''https://'' @ host req) (refreshToken toks)
                          in case axios d call of
                               Inl e' \<Rightarrow> handleUnauthenticated cfg d now req (log @ [call])
                             | Inr data \<Rightarrow>
                                 (case getRedirectResponse cfg d now (refreshed data) (host req)
                                         (Some (uri req)) of
                                    Inl e' \<Rightarrow> handleUnauthenticated cfg d now req (log @ [call])
                                  | Inr r \<Rightarrow> (Inr (Respond r), log @ [call])))
                    else handleUnauthenticated cfg d now req log))"
  by (simp add: handle_def fetchTokensFromRefreshToken_run revokeTokens_def action_defs Let_def
      refreshed_def split: sum.splits)



subsection \<open>Cookie attribute overrides\<close>








subsection \<open>Forwarding a valid session\<close>

text \<open>
  C4. When the tokens extracted from the request's cookies hold an ID token that verifies
  and the URI does not start with a configured logout path, \<^verbatim>\<open>handle\<close> returns the request
  it was given, the same value in every field; no response is built, so no Set-Cookie
  header is emitted, and no call is made to the identity provider.
\<close>

theorem handle_forwards_valid_session:
  assumes "getTokensFromCookie cfg d (cookie req) = Inr toks"
    and "verify d (idToken toks) = Inr user"
    and "\<not> logoutRequested cfg req"
  shows "handle cfg d now req log = (Inr (Forward req), log)"
  using assms by (simp add: handle_def action_defs Let_def)

lemma valid_session_tokens:
  "getTokensFromCookie sample_config sample_deps (cookie valid_session_request) =
     Inr \<lparr>idToken = Some ''good-id'', accessToken = None, refreshToken = Some ''good-refresh''\<rparr>"
  by (simp add: getTokensFromCookie_def valid_session_request_def sample_defs requestCookies_def
      tokenStep_def cookieBase_def no_tokens_def truthy_def suffix_to_prefix Let_def)

theorem handle_forwards_valid_session_witness:
  "getTokensFromCookie sample_config sample_deps (cookie valid_session_request) =
     Inr \<lparr>idToken = Some ''good-id'', accessToken = None, refreshToken = Some ''good-refresh''\<rparr>
   \<and> verify sample_deps (Some ''good-id'') = Inr \<lparr>cognito_username = ''alice''\<rparr>
   \<and> \<not> logoutRequested sample_config valid_session_request
   \<and> handle sample_config sample_deps 0 valid_session_request [] =
       (Inr (Forward valid_session_request), [])"
proof -
  have v: "verify sample_deps (idToken \<lparr>idToken = Some ''good-id'', accessToken = None,
             refreshToken = Some ''good-refresh''\<rparr>) = Inr \<lparr>cognito_username = ''alice''\<rparr>"
    by (simp add: sample_defs)
  have l: "\<not> logoutRequested sample_config valid_session_request"
    by (simp add: logoutRequested_def sample_config_def)
  show ?thesis
    using handle_forwards_valid_session [OF valid_session_tokens v l, of 0 "[]"]
      valid_session_tokens v l
    by simp
qed

subsection \<open>Clearing cookies\<close>












subsection \<open>The logout path of the default gate\<close>



subsection \<open>The redirect of the sign-in flow\<close>

text \<open>
  C3, evaluated where the code departs from it: for a request with a valid session,
  \<^verbatim>\<open>handleSignIn\<close> answers with a 302 that has a Location header and neither a Cache-Control
  nor a Pragma header.
\<close>

theorem handleSignIn_valid_session_headers:
  "handleSignIn sample_config sample_deps 0 valid_session_request [] =
     (Inr \<lparr>status = ''302'', location = [Some ''https://example.com''],
           cache_control = [], pragma = [], set_cookies = None, body = None\<rparr>,
      [])"
  by (simp add: handleSignIn_def action_defs valid_session_request_def sample_defs flow_eval)

subsection \<open>CSRF validation before the code exchange\<close>

lemma validate_nonce_differs:
  assumes "csrfProtection cfg = Some secret"
    and "decodeState d (parseQuery d (querystring req) ''state'') = Inr (Some ps)"
    and "getCSRFTokensFromCookie cfg d (cookie req) = Inr found"
    and "state_nonce ps \<noteq> nonce_cookie found"
  shows "validateCSRFCookies cfg d req = Inl MissingNonceCookie
       \<or> validateCSRFCookies cfg d req = Inl NonceMismatch"
  using assms by (simp add: validateCSRFCookies_def)

lemma validate_unit: "validateCSRFCookies cfg d req \<noteq> Inr () \<Longrightarrow> \<exists>e. validateCSRFCookies cfg d req = Inl e"
  by (cases "validateCSRFCookies cfg d req") auto

text \<open>
  C1 (as amended). With CSRF protection enabled, \<^verbatim>\<open>handleParseAuth\<close> calls the token endpoint
  only after \<^verbatim>\<open>_validateCSRFCookies\<close> has succeeded: when the validation fails the flow
  answers with the status-400 response and the log of calls is unchanged, and when any call
  was made the validation had succeeded and the call is the one code exchange. In particular
  a request whose state decodes to another nonce than the nonce cookie fails validation
  (missing nonce cookie or nonce mismatch) and makes no call. The default gate \<^verbatim>\<open>handle\<close>
  exchanges a code without validating the CSRF cookies.
\<close>

theorem csrf_validated_before_exchange:
  assumes "csrfProtection cfg = Some secret"
  shows "(validateCSRFCookies cfg d req \<noteq> Inr () \<longrightarrow>
            (\<exists>e. handleParseAuth cfg d now req log = (Inr (errorResponse e), log)))
       \<and> (snd (handleParseAuth cfg d now req log) \<noteq> log \<longrightarrow>
            validateCSRFCookies cfg d req = Inr ()
          \<and> snd (handleParseAuth cfg d now req log) =
              log @ [codeRequest cfg d (parseAuthRedirectURI cfg req)
                       (parseQuery d (querystring req) ''code'')])
       \<and> (\<forall>ps found. decodeState d (parseQuery d (querystring req) ''state'') = Inr (Some ps)
             \<and> getCSRFTokensFromCookie cfg d (cookie req) = Inr found
             \<and> state_nonce ps \<noteq> nonce_cookie found \<longrightarrow>
            (validateCSRFCookies cfg d req = Inl MissingNonceCookie
             \<or> validateCSRFCookies cfg d req = Inl NonceMismatch)
          \<and> (\<exists>e. handleParseAuth cfg d now req log = (Inr (errorResponse e), log)))"
proof -
  have chk: "csrfChecked cfg d req = validateCSRFCookies cfg d req"
    using assms by (simp add: csrfChecked_def)
  have fails: "\<exists>e. handleParseAuth cfg d now req log = (Inr (errorResponse e), log)"
    if "validateCSRFCookies cfg d req \<noteq> Inr ()"
  proof -
    from that obtain e where "validateCSRFCookies cfg d req = Inl e"
      using validate_unit by blast
    then show ?thesis
      by (auto simp add: handleParseAuth_result chk)
  qed
  have calls: "validateCSRFCookies cfg d req = Inr ()
          \<and> snd (handleParseAuth cfg d now req log) =
              log @ [codeRequest cfg d (parseAuthRedirectURI cfg req)
                       (parseQuery d (querystring req) ''code'')]"
    if "snd (handleParseAuth cfg d now req log) \<noteq> log"
    using that
    by (auto simp add: handleParseAuth_result chk Let_def split: if_splits sum.splits)
  have tampered: "(validateCSRFCookies cfg d req = Inl MissingNonceCookie
             \<or> validateCSRFCookies cfg d req = Inl NonceMismatch)
          \<and> (\<exists>e. handleParseAuth cfg d now req log = (Inr (errorResponse e), log))"
    if "decodeState d (parseQuery d (querystring req) ''state'') = Inr (Some ps)"
      and "getCSRFTokensFromCookie cfg d (cookie req) = Inr found"
      and "state_nonce ps \<noteq> nonce_cookie found" for ps found
  proof -
    from validate_nonce_differs [OF assms that]
    have v: "validateCSRFCookies cfg d req = Inl MissingNonceCookie
       \<or> validateCSRFCookies cfg d req = Inl NonceMismatch" .
    then have "validateCSRFCookies cfg d req \<noteq> Inr ()" by auto
    with fails v show ?thesis by blast
  qed
  from fails calls tampered show ?thesis by blast
qed


lemma tampered_validate:
  "validateCSRFCookies csrf_config sample_deps tampered_request = Inl NonceMismatch"
  by (simp add: csrf_config_def tampered_request_def sample_defs csrf_eval flow_eval)

text \<open>A callback with a tampered state nonce at the sample environment: the validation
  reports the mismatch and \<^verbatim>\<open>handleParseAuth\<close> answers 400 without a call.\<close>

theorem csrf_validated_before_exchange_witness:
  "csrfProtection csrf_config = Some ''s3cret''
   \<and> validateCSRFCookies csrf_config sample_deps tampered_request = Inl NonceMismatch
   \<and> handleParseAuth csrf_config sample_deps 0 tampered_request [] =
       (Inr \<lparr>status = ''400'', location = [], cache_control = [], pragma = [],
             set_cookies = None,
             body = Some ''Error: Nonce mismatch. This can happen if you start multiple authentication attempts in parallel (e.g. in separate tabs)''\<rparr>,
        [])"
  (is "?a \<and> ?b \<and> ?c")
proof -
  have a: ?a by (simp add: csrf_config_def sample_config_def)
  have ne: "validateCSRFCookies csrf_config sample_deps tampered_request \<noteq> Inr ()"
    by (simp add: tampered_validate)
  have c: ?c
    unfolding handleParseAuth_result csrfChecked_def tampered_validate
    by (simp add: csrf_config_def tampered_request_def sample_defs flow_eval errorResponse_def)
  from csrf_validated_before_exchange [OF a, of sample_deps tampered_request 0 "[]"]
    a tampered_validate c
  show ?thesis by simp
qed

text \<open>C1 as stated fails for \<^verbatim>\<open>handle\<close>: with CSRF protection enabled and the same
  tampered callback, whose validation fails, \<^verbatim>\<open>handle\<close> calls the token endpoint with the
  code and sets the session cookies.\<close>

theorem handle_exchanges_without_csrf_counterexample:
  "csrfProtection csrf_config = Some ''s3cret''
   \<and> validateCSRFCookies csrf_config sample_deps tampered_request = Inl NonceMismatch
   \<and> snd (handle csrf_config sample_deps 0 tampered_request []) =
       [\<lparr>url = ''https://auth.example.com/oauth2/token'', authorization = None,
         form = [(''client_id'', Some ''app''), (''code'', Some ''abc''),
                 (''grant_type'', Some ''authorization_code''),
                 (''redirect_uri'', Some ''https://example.com'')]\<rparr>]
   \<and> cookiePairs (resultCookies (fst (handle csrf_config sample_deps 0 tampered_request []))) =
       [(''CognitoIdentityServiceProvider.app.alice.accessToken'', Some ''fresh-access''),
        (''CognitoIdentityServiceProvider.app.alice.idToken'', Some ''fresh-id''),
        (''CognitoIdentityServiceProvider.app.alice.refreshToken'', Some ''fresh-refresh''),
        (''CognitoIdentityServiceProvider.app.alice.tokenScopesString'',
         Some ''phone email profile openid aws.cognito.signin.user.admin''),
        (''CognitoIdentityServiceProvider.app.LastAuthUser'', Some ''alice''),
        (''CognitoIdentityServiceProvider.app.pkce'', Some []),
        (''CognitoIdentityServiceProvider.app.nonce'', Some []),
        (''CognitoIdentityServiceProvider.app.nonceHmac'', Some [])]"
  unfolding handle_result handleUnauthenticated_result tampered_validate
  by (simp add: csrf_config_def tampered_request_def sample_defs flow_eval csrf_eval
      codeRequest_def exchanged_def getRedirectResponse_def clearedCsrfCookies_def
      getOverridenCookieAttributes_def cookiePairs_def resultCookies_def cookiesOf_def)

subsection \<open>Generating and validating the CSRF state\<close>

lemma csrf_cookies_found:
  assumes "cookie req = Some hs"
    and "requestCookies d hs =
           [(cookieBase cfg @ ''.'' @ PKCE_COOKIE_NAME_SUFFIX, p),
            (cookieBase cfg @ ''.'' @ NONCE_COOKIE_NAME_SUFFIX, n),
            (cookieBase cfg @ ''.'' @ NONCE_HMAC_COOKIE_NAME_SUFFIX, h)]"
  shows "getCSRFTokensFromCookie cfg d (cookie req) =
           Inr \<lparr>nonce_cookie = Some n, nonceHmac_cookie = Some h, pkce_cookie = Some p\<rparr>"
  using assms
  by (simp add: getCSRFTokensFromCookie_def csrfStep_def no_csrf_cookies_def
      NONCE_COOKIE_NAME_SUFFIX_def NONCE_HMAC_COOKIE_NAME_SUFFIX_def PKCE_COOKIE_NAME_SUFFIX_def
      suffix_to_prefix Let_def)

lemma validate_carried:
  assumes "csrfProtection cfg = Some secret"
    and "decodeState d (Some st) = Inr (Some \<lparr>state_nonce = Some n0, state_redirect_uri = ru\<rparr>)"
    and "n0 \<noteq> []"
    and "carries cfg d req st p n h"
  shows "validateCSRFCookies cfg d req =
           (if n = [] then Inl MissingNonceCookie
            else if n \<noteq> n0 then Inl NonceMismatch
            else if p = [] then Inl MissingPkceCookie
            else if h \<noteq> signNonce d n0 secret
            then Inl (SignatureMismatch (signNonce d n0 secret) (Some h))
            else Inr ())"
proof -
  from assms(4) obtain hs where hs: "cookie req = Some hs"
    and cs: "requestCookies d hs =
           [(cookieBase cfg @ ''.'' @ PKCE_COOKIE_NAME_SUFFIX, p),
            (cookieBase cfg @ ''.'' @ NONCE_COOKIE_NAME_SUFFIX, n),
            (cookieBase cfg @ ''.'' @ NONCE_HMAC_COOKIE_NAME_SUFFIX, h)]"
    and st: "parseQuery d (querystring req) ''state'' = Some st"
    by (auto simp add: carries_def split: option.splits)
  show ?thesis
    using assms(1,2,3) st csrf_cookies_found [OF hs cs]
    by (auto simp add: validateCSRFCookies_def truthy_def show_js_def)
qed

lemma validate_without_nonce:
  assumes "csrfProtection cfg = Some secret"
    and "decodeState d (Some st) = Inr (Some ps)"
    and "carriesWithoutNonce cfg d req st p h"
  shows "validateCSRFCookies cfg d req = Inl MissingNonceCookie"
  using assms
  by (auto simp add: validateCSRFCookies_def carriesWithoutNonce_def getCSRFTokensFromCookie_def
      csrfStep_def no_csrf_cookies_def truthy_def suffix_to_prefix Let_def
      NONCE_COOKIE_NAME_SUFFIX_def NONCE_HMAC_COOKIE_NAME_SUFFIX_def PKCE_COOKIE_NAME_SUFFIX_def
      split: option.splits)

lemma validate_without_pkce:
  assumes "csrfProtection cfg = Some secret"
    and "decodeState d (Some st) = Inr (Some \<lparr>state_nonce = Some n0, state_redirect_uri = ru\<rparr>)"
    and "n0 \<noteq> []"
    and "carriesWithoutPkce cfg d req st n0 h"
  shows "validateCSRFCookies cfg d req = Inl MissingPkceCookie"
  using assms
  by (auto simp add: validateCSRFCookies_def carriesWithoutPkce_def getCSRFTokensFromCookie_def
      csrfStep_def no_csrf_cookies_def truthy_def suffix_to_prefix Let_def
      NONCE_COOKIE_NAME_SUFFIX_def NONCE_HMAC_COOKIE_NAME_SUFFIX_def PKCE_COOKIE_NAME_SUFFIX_def
      split: option.splits)

lemma update_differs: "i < length xs \<Longrightarrow> c \<noteq> xs ! i \<Longrightarrow> xs[i := c] \<noteq> xs \<and> xs[i := c] \<noteq> []"
  by (metis length_list_update list.size(3) not_less_zero nth_list_update_eq)


text \<open>
  C2 (as amended). Let CSRF protection be enabled, let the generated nonce and PKCE verifier
  be non-empty, and let decoding the generated state give back the nonce and the redirect
  URI. For a request that carries the generated state and exactly the three cookies the
  authorize redirect sets (which hold the generated pkce, nonce and nonceHmac),
  \<^verbatim>\<open>_validateCSRFCookies\<close> succeeds. With one byte of the nonce cookie changed it fails with
  the nonce mismatch, and with one byte of the nonceHmac cookie changed it fails with the
  signature mismatch, which names the expected and the received HMAC. The PKCE cookie is
  only required to be present and non-empty: with any non-empty value, a mutated one
  included, validation still succeeds, and with the empty value or without the cookie it
  fails with the missing PKCE cookie error; with an empty nonce cookie or without it,
  validation fails with the missing nonce cookie error.
\<close>

theorem csrf_round_trip_and_mutations:
  assumes "csrfProtection cfg = Some secret"
    and "randomNonce d \<noteq> []"
    and "randomPkce d \<noteq> []"
    and "decodeState d (Some (state (generateCSRFTokens d redirectURI secret))) =
           Inr (Some \<lparr>state_nonce = Some (randomNonce d), state_redirect_uri = Some redirectURI\<rparr>)"
  shows "(let t = generateCSRFTokens d redirectURI secret in
          (carries cfg d req (state t) (pkce t) (nonce t) (nonceHmac t) \<longrightarrow>
             sentBack (csrfCookies cfg now t) =
               [(cookieBase cfg @ ''.'' @ PKCE_COOKIE_NAME_SUFFIX, pkce t),
                (cookieBase cfg @ ''.'' @ NONCE_COOKIE_NAME_SUFFIX, nonce t),
                (cookieBase cfg @ ''.'' @ NONCE_HMAC_COOKIE_NAME_SUFFIX, nonceHmac t)]
           \<and> validateCSRFCookies cfg d req = Inr ())
        \<and> (\<forall>i c. i < length (nonce t) \<and> c \<noteq> nonce t ! i
               \<and> carries cfg d req (state t) (pkce t) ((nonce t)[i := c]) (nonceHmac t) \<longrightarrow>
             validateCSRFCookies cfg d req = Inl NonceMismatch)
        \<and> (\<forall>i c. i < length (nonceHmac t) \<and> c \<noteq> nonceHmac t ! i
               \<and> carries cfg d req (state t) (pkce t) (nonce t) ((nonceHmac t)[i := c]) \<longrightarrow>
             validateCSRFCookies cfg d req =
               Inl (SignatureMismatch (nonceHmac t) (Some ((nonceHmac t)[i := c]))))
        \<and> (\<forall>p. p \<noteq> [] \<and> carries cfg d req (state t) p (nonce t) (nonceHmac t) \<longrightarrow>
             validateCSRFCookies cfg d req = Inr ())
        \<and> (carries cfg d req (state t) [] (nonce t) (nonceHmac t) \<longrightarrow>
             validateCSRFCookies cfg d req = Inl MissingPkceCookie)
        \<and> (carries cfg d req (state t) (pkce t) [] (nonceHmac t) \<longrightarrow>
             validateCSRFCookies cfg d req = Inl MissingNonceCookie)
        \<and> (carriesWithoutPkce cfg d req (state t) (nonce t) (nonceHmac t) \<longrightarrow>
             validateCSRFCookies cfg d req = Inl MissingPkceCookie)
        \<and> (carriesWithoutNonce cfg d req (state t) (pkce t) (nonceHmac t) \<longrightarrow>
             validateCSRFCookies cfg d req = Inl MissingNonceCookie))"
proof -
  define t where "t = generateCSRFTokens d redirectURI secret"
  have n: "nonce t = randomNonce d" and p: "pkce t = randomPkce d"
    and h: "nonceHmac t = signNonce d (randomNonce d) secret"
    by (simp_all add: t_def generateCSRFTokens_def)
  have dec: "decodeState d (Some (state t)) =
           Inr (Some \<lparr>state_nonce = Some (randomNonce d), state_redirect_uri = Some redirectURI\<rparr>)"
    using assms(4) by (simp add: t_def)
  note v = validate_carried [OF assms(1) dec assms(2)]
  have sent: "sentBack (csrfCookies cfg now t) =
               [(cookieBase cfg @ ''.'' @ PKCE_COOKIE_NAME_SUFFIX, pkce t),
                (cookieBase cfg @ ''.'' @ NONCE_COOKIE_NAME_SUFFIX, nonce t),
                (cookieBase cfg @ ''.'' @ NONCE_HMAC_COOKIE_NAME_SUFFIX, nonceHmac t)]"
    by (simp add: sentBack_def csrfCookies_def or_else_def Let_def)
  have c1: "validateCSRFCookies cfg d req = Inr ()"
    if "carries cfg d req (state t) (pkce t) (nonce t) (nonceHmac t)"
    using v [OF that] assms(2,3) by (simp add: n p h)
  have c2: "validateCSRFCookies cfg d req = Inl NonceMismatch"
    if "i < length (nonce t)" "c \<noteq> nonce t ! i"
      "carries cfg d req (state t) (pkce t) ((nonce t)[i := c]) (nonceHmac t)" for i c
    using v [OF that(3)] update_differs [OF that(1,2)] by (simp add: n)
  have c3: "validateCSRFCookies cfg d req =
               Inl (SignatureMismatch (nonceHmac t) (Some ((nonceHmac t)[i := c])))"
    if "i < length (nonceHmac t)" "c \<noteq> nonceHmac t ! i"
      "carries cfg d req (state t) (pkce t) (nonce t) ((nonceHmac t)[i := c])" for i c
    using v [OF that(3)] update_differs [OF that(1,2)] assms(2,3) by (simp add: n p h)
  have c4: "validateCSRFCookies cfg d req = Inr ()"
    if "q \<noteq> []" "carries cfg d req (state t) q (nonce t) (nonceHmac t)" for q
    using v [OF that(2)] that(1) assms(2) by (simp add: n h)
  have c5: "validateCSRFCookies cfg d req = Inl MissingPkceCookie"
    if "carries cfg d req (state t) [] (nonce t) (nonceHmac t)"
    using v [OF that] assms(2) by (simp add: n)
  have c6: "validateCSRFCookies cfg d req = Inl MissingNonceCookie"
    if "carries cfg d req (state t) (pkce t) [] (nonceHmac t)"
    using v [OF that] by simp
  have c7: "validateCSRFCookies cfg d req = Inl MissingPkceCookie"
    if "carriesWithoutPkce cfg d req (state t) (nonce t) (nonceHmac t)"
    using validate_without_pkce [OF assms(1) dec assms(2)] that by (simp add: n)
  have c8: "validateCSRFCookies cfg d req = Inl MissingNonceCookie"
    if "carriesWithoutNonce cfg d req (state t) (pkce t) (nonceHmac t)"
    using validate_without_nonce [OF assms(1) dec that] .
  from sent c1 c2 c3 c4 c5 c6 c7 c8 show ?thesis
    unfolding Let_def t_def [symmetric] by blast
qed

lemma sample_generated:
  "generateCSRFTokens sample_deps ''https://example.com'' ''s3cret'' =
     \<lparr>nonce = ''n0nce'', nonceHmac = ''hmac(n0nce,s3cret)'', pkce = ''v3rifier'',
      state = ''n0nce~https://example.com''\<rparr>"
  by (simp add: generateCSRFTokens_def sample_defs show_js_def)

lemma genuine_carries:
  "carries csrf_config sample_deps genuine_request ''n0nce~https://example.com''
     ''v3rifier'' ''n0nce'' ''hmac(n0nce,s3cret)''"
  by (simp add: carries_def genuine_request_def csrf_config_def sample_defs flow_eval
      NONCE_COOKIE_NAME_SUFFIX_def NONCE_HMAC_COOKIE_NAME_SUFFIX_def PKCE_COOKIE_NAME_SUFFIX_def)

lemma nonce_mutated_carries:
  "carries csrf_config sample_deps nonce_mutated_request ''n0nce~https://example.com''
     ''v3rifier'' (''n0nce''[1 := CHR ''1'']) ''hmac(n0nce,s3cret)''"
  by (simp add: carries_def nonce_mutated_request_def genuine_request_def csrf_config_def
      sample_defs flow_eval
      NONCE_COOKIE_NAME_SUFFIX_def NONCE_HMAC_COOKIE_NAME_SUFFIX_def PKCE_COOKIE_NAME_SUFFIX_def)

lemma hmac_mutated_carries:
  "carries csrf_config sample_deps hmac_mutated_request ''n0nce~https://example.com''
     ''v3rifier'' ''n0nce'' (''hmac(n0nce,s3cret)''[0 := CHR ''H''])"
  by (simp add: carries_def hmac_mutated_request_def genuine_request_def csrf_config_def
      sample_defs flow_eval
      NONCE_COOKIE_NAME_SUFFIX_def NONCE_HMAC_COOKIE_NAME_SUFFIX_def PKCE_COOKIE_NAME_SUFFIX_def)

lemma pkce_mutated_carries:
  "carries csrf_config sample_deps pkce_mutated_request ''n0nce~https://example.com''
     (''v3rifier''[6 := CHR ''E'']) ''n0nce'' ''hmac(n0nce,s3cret)''"
  by (simp add: carries_def pkce_mutated_request_def genuine_request_def csrf_config_def
      sample_defs flow_eval
      NONCE_COOKIE_NAME_SUFFIX_def NONCE_HMAC_COOKIE_NAME_SUFFIX_def PKCE_COOKIE_NAME_SUFFIX_def)

lemma sample_generated_fields:
  "nonce (generateCSRFTokens sample_deps ''https://example.com'' ''s3cret'') = ''n0nce''"
  "nonceHmac (generateCSRFTokens sample_deps ''https://example.com'' ''s3cret'') =
     ''hmac(n0nce,s3cret)''"
  "pkce (generateCSRFTokens sample_deps ''https://example.com'' ''s3cret'') = ''v3rifier''"
  "state (generateCSRFTokens sample_deps ''https://example.com'' ''s3cret'') =
     ''n0nce~https://example.com''"
  by (simp_all add: sample_generated)

text \<open>The round trip and the two detected mutations at the sample environment.\<close>

theorem csrf_round_trip_and_mutations_witness:
  "csrfProtection csrf_config = Some ''s3cret''
   \<and> generateCSRFTokens sample_deps ''https://example.com'' ''s3cret'' =
       \<lparr>nonce = ''n0nce'', nonceHmac = ''hmac(n0nce,s3cret)'', pkce = ''v3rifier'',
        state = ''n0nce~https://example.com''\<rparr>
   \<and> decodeState sample_deps (Some ''n0nce~https://example.com'') =
       Inr (Some \<lparr>state_nonce = Some ''n0nce'', state_redirect_uri = Some ''https://example.com''\<rparr>)
   \<and> carries csrf_config sample_deps genuine_request ''n0nce~https://example.com''
        ''v3rifier'' ''n0nce'' ''hmac(n0nce,s3cret)''
   \<and> validateCSRFCookies csrf_config sample_deps genuine_request = Inr ()
   \<and> carries csrf_config sample_deps nonce_mutated_request ''n0nce~https://example.com''
        ''v3rifier'' (''n0nce''[1 := CHR ''1'']) ''hmac(n0nce,s3cret)''
   \<and> validateCSRFCookies csrf_config sample_deps nonce_mutated_request = Inl NonceMismatch
   \<and> carries csrf_config sample_deps hmac_mutated_request ''n0nce~https://example.com''
        ''v3rifier'' ''n0nce'' (''hmac(n0nce,s3cret)''[0 := CHR ''H''])
   \<and> validateCSRFCookies csrf_config sample_deps hmac_mutated_request =
       Inl (SignatureMismatch ''hmac(n0nce,s3cret)'' (Some (''hmac(n0nce,s3cret)''[0 := CHR ''H''])))"
proof -
  have a: "csrfProtection csrf_config = Some ''s3cret''"
    by (simp add: csrf_config_def sample_config_def)
  have n: "randomNonce sample_deps \<noteq> []" and p: "randomPkce sample_deps \<noteq> []"
    by (simp_all add: sample_deps_def)
  have dec: "decodeState sample_deps (Some ''n0nce~https://example.com'') =
       Inr (Some \<lparr>state_nonce = Some ''n0nce'', state_redirect_uri = Some ''https://example.com''\<rparr>)"
    by (simp add: sample_defs)
  have dec': "decodeState sample_deps
      (Some (state (generateCSRFTokens sample_deps ''https://example.com'' ''s3cret''))) =
       Inr (Some \<lparr>state_nonce = Some (randomNonce sample_deps),
            state_redirect_uri = Some ''https://example.com''\<rparr>)"
    unfolding sample_generated_fields using dec by (simp add: sample_deps_def)
  note th = csrf_round_trip_and_mutations [OF a n p dec', unfolded Let_def sample_generated_fields]
  have g: "validateCSRFCookies csrf_config sample_deps genuine_request = Inr ()"
    using th [of genuine_request] genuine_carries by blast
  have i1: "1 < length ''n0nce'' \<and> CHR ''1'' \<noteq> ''n0nce'' ! 1" by simp
  have m1: "validateCSRFCookies csrf_config sample_deps nonce_mutated_request = Inl NonceMismatch"
    using th [of nonce_mutated_request] nonce_mutated_carries i1 by blast
  have i2: "0 < length ''hmac(n0nce,s3cret)'' \<and> CHR ''H'' \<noteq> ''hmac(n0nce,s3cret)'' ! 0" by simp
  have m2: "validateCSRFCookies csrf_config sample_deps hmac_mutated_request =
       Inl (SignatureMismatch ''hmac(n0nce,s3cret)'' (Some (''hmac(n0nce,s3cret)''[0 := CHR ''H''])))"
    using th [of hmac_mutated_request] hmac_mutated_carries i2 by blast
  from a sample_generated dec genuine_carries g nonce_mutated_carries m1 hmac_mutated_carries m2
  show ?thesis by blast
qed

text \<open>C2 as stated fails for the PKCE cookie: the request carries what was generated, but
  for one byte of the PKCE value, and the validation succeeds.\<close>

theorem pkce_mutation_counterexample:
  "pkce (generateCSRFTokens sample_deps ''https://example.com'' ''s3cret'') = ''v3rifier''
   \<and> carries csrf_config sample_deps pkce_mutated_request
        (state (generateCSRFTokens sample_deps ''https://example.com'' ''s3cret''))
        (''v3rifier''[6 := CHR ''E''])
        (nonce (generateCSRFTokens sample_deps ''https://example.com'' ''s3cret''))
        (nonceHmac (generateCSRFTokens sample_deps ''https://example.com'' ''s3cret''))
   \<and> ''v3rifier''[6 := CHR ''E''] \<noteq> ''v3rifier''
   \<and> validateCSRFCookies csrf_config sample_deps pkce_mutated_request = Inr ()"
  (is "?a \<and> ?b \<and> ?c \<and> ?d")
proof -
  have a: ?a by (simp add: sample_generated)
  have b: ?b unfolding sample_generated_fields by (rule pkce_mutated_carries)
  have c: ?c by simp
  have d: ?d
    by (simp add: pkce_mutated_request_def genuine_request_def csrf_config_def
        sample_defs csrf_eval flow_eval)
  from a b c d show ?thesis by blast
qed

subsection \<open>Refreshing a stale session in the default gate\<close>

lemma csrfCookies_names:
  "map cookie_name (csrfCookies cfg now t) =
     [cookieBase cfg @ ''.'' @ PKCE_COOKIE_NAME_SUFFIX,
      cookieBase cfg @ ''.'' @ NONCE_COOKIE_NAME_SUFFIX,
      cookieBase cfg @ ''.'' @ NONCE_HMAC_COOKIE_NAME_SUFFIX]"
  by (simp add: csrfCookies_def Let_def)














subsection \<open>What becomes of a failure\<close>


















subsection \<open>Session cookies only after verification\<close>





















end
